theory Spec2Isabelle
  imports Main
begin

section \<open>Publications (pulpcore/app/models/publication.py)\<close>

subsection \<open>Python values that reach the context manager\<close>

text \<open>
  An exception instance as \<^verbatim>\<open>__exit__\<close> sees it. \<open>DuplicatePath\<close> is the error the
  persistence layer raises when a \<^verbatim>\<open>unique_together\<close> constraint is violated (Django's
  IntegrityError). \<open>Raised name b\<close> is an instance of any other exception class \<open>name\<close>;
  \<open>b\<close> is the value of \<^verbatim>\<open>bool(exc_val)\<close>, which is True unless the class defines
  \<^verbatim>\<open>__bool__\<close> or \<^verbatim>\<open>__len__\<close>.
\<close>

datatype py_exception = DuplicatePath | Raised string bool

fun exc_bool :: "py_exception \<Rightarrow> bool" where
  "exc_bool DuplicatePath = True"
| "exc_bool (Raised name b) = b"

text \<open>\<^verbatim>\<open>not exc_val\<close>: \<^verbatim>\<open>None\<close> is falsy, an instance has the truth value of its class.\<close>

definition py_not :: "py_exception option \<Rightarrow> bool" where
  "py_not exc_val = (case exc_val of None \<Rightarrow> True | Some e \<Rightarrow> \<not> exc_bool e)"

text \<open>What a method returns: \<^verbatim>\<open>__exit__\<close> has no return statement, so it returns None.\<close>

datatype py_value = PyNone | PyBool bool

fun truthy :: "py_value \<Rightarrow> bool" where
  "truthy PyNone = False"
| "truthy (PyBool b) = b"

subsection \<open>Rows and tables\<close>

text \<open>
  A Publication instance: its primary key and the four fields the class declares.
  Foreign keys are the primary keys of the rows they point to; \<open>publisher\<close> is nullable.
\<close>

record publication =
  pk :: nat
  complete :: bool
  pass_through :: bool
  publisher :: "nat option"
  repository_version :: nat

record published_artifact =
  pa_relative_path :: string
  pa_publication :: nat
  pa_content_artifact :: nat

record published_metadata =
  pm_relative_path :: string
  pm_publication :: nat
  pm_file :: string

text \<open>
  CreatedResource is a generic relation: a content type and the key of the object.
  \<^verbatim>\<open>CreatedResource(content_object=publication)\<close> fills both.
\<close>

record created_resource =
  content_type :: string
  object_id :: nat

text \<open>The database: the publication table keyed by primary key, the other tables as rows.\<close>

record db =
  publications :: "nat \<rightharpoonup> publication"
  published_artifacts :: "published_artifact list"
  published_metadata :: "published_metadata list"
  created_resources :: "created_resource list"

subsection \<open>Persistence primitives\<close>

text \<open>
  \<^verbatim>\<open>with transaction.atomic():\<close> the block's writes are kept when it ends normally and
  undone when it raises.
\<close>

definition atomic :: "(db \<Rightarrow> (py_exception + 'a) \<times> db) \<Rightarrow> db \<Rightarrow> (py_exception + 'a) \<times> db" where
  "atomic block s =
     (case block s of
        (Inl e, s') \<Rightarrow> (Inl e, s)
      | (Inr v, s') \<Rightarrow> (Inr v, s'))"

text \<open>\<^verbatim>\<open>publication.save()\<close>: writes every field of the instance to the row with its key.\<close>

definition save :: "publication \<Rightarrow> db \<Rightarrow> db" where
  "save self s = s\<lparr>publications := (publications s)(pk self \<mapsto> self)\<rparr>"

text \<open>
  \<^verbatim>\<open>resource.save()\<close> for a new CreatedResource. The class is imported from the task
  module, which is not part of this file, so what its table requires of a row is not known
  here: \<open>accepted\<close> says whether the storage layer takes the row. A row that is not taken
  is not written, and the save raises.
\<close>

definition save_created_resource ::
  "bool \<Rightarrow> created_resource \<Rightarrow> db \<Rightarrow> (py_exception + unit) \<times> db" where
  "save_created_resource accepted r s =
     (if accepted then (Inr (), s\<lparr>created_resources := created_resources s @ [r]\<rparr>)
      else (Inl (Raised ''DatabaseError'' True), s))"

text \<open>
  \<^verbatim>\<open>super().delete()\<close>: removes the row; PublishedFile declares
  \<^verbatim>\<open>publication = ForeignKey(Publication, on_delete=CASCADE)\<close>, so the rows of both
  concrete subclasses that point to it go with it.
\<close>

definition super_delete :: "publication \<Rightarrow> db \<Rightarrow> db" where
  "super_delete self s =
     s\<lparr>publications := (publications s)(pk self := None),
       published_artifacts := filter (\<lambda>a. pa_publication a \<noteq> pk self) (published_artifacts s),
       published_metadata := filter (\<lambda>m. pm_publication m \<noteq> pk self) (published_metadata s)\<rparr>"

text \<open>
  Saving a new PublishedArtifact or PublishedMetadata row. Each class declares two
  \<^verbatim>\<open>unique_together\<close> pairs; a row that repeats one of them is refused and the table is
  left as it was.
\<close>

definition artifact_clash :: "published_artifact \<Rightarrow> published_artifact \<Rightarrow> bool" where
  "artifact_clash a b \<longleftrightarrow>
     (pa_publication b = pa_publication a \<and> pa_content_artifact b = pa_content_artifact a)
   \<or> (pa_publication b = pa_publication a \<and> pa_relative_path b = pa_relative_path a)"

definition metadata_clash :: "published_metadata \<Rightarrow> published_metadata \<Rightarrow> bool" where
  "metadata_clash a b \<longleftrightarrow>
     (pm_publication b = pm_publication a \<and> pm_file b = pm_file a)
   \<or> (pm_publication b = pm_publication a \<and> pm_relative_path b = pm_relative_path a)"

definition save_published_artifact :: "published_artifact \<Rightarrow> db \<Rightarrow> (py_exception + unit) \<times> db" where
  "save_published_artifact a s =
     (if list_ex (artifact_clash a) (published_artifacts s) then (Inl DuplicatePath, s)
      else (Inr (), s\<lparr>published_artifacts := published_artifacts s @ [a]\<rparr>))"

definition save_published_metadata :: "published_metadata \<Rightarrow> db \<Rightarrow> (py_exception + unit) \<times> db" where
  "save_published_metadata m s =
     (if list_ex (metadata_clash m) (published_metadata s) then (Inl DuplicatePath, s)
      else (Inr (), s\<lparr>published_metadata := published_metadata s @ [m]\<rparr>))"

subsection \<open>The methods of Publication\<close>

text \<open>
  \<^verbatim>\<open>Publication.create(repository_version, publisher=None, pass_through=False)\<close>.
  \<open>new_pk\<close> is the primary key the new instance gets from the key generator of the base
  model, which is not part of this file; \<open>accepted\<close> is the storage layer's answer to
  \<^verbatim>\<open>resource.save()\<close>. When that save raises, the exception leaves the
  \<^verbatim>\<open>with transaction.atomic()\<close> block and the \<^verbatim>\<open>return\<close> is not reached.
\<close>

definition Publication_create ::
  "bool \<Rightarrow> nat \<Rightarrow> nat \<Rightarrow> nat option \<Rightarrow> bool \<Rightarrow> db \<Rightarrow> (py_exception + publication) \<times> db" where
  "Publication_create accepted new_pk rv publisher_arg pass_through_arg =
     atomic (\<lambda>s.
       let publication = \<lparr>pk = new_pk, complete = False, pass_through = pass_through_arg,
                          publisher = None, repository_version = rv\<rparr>;
           publication = (if publisher_arg \<noteq> None then publication\<lparr>publisher := publisher_arg\<rparr>
                          else publication);
           s = save publication s;
           resource = \<lparr>content_type = ''publication'', object_id = pk publication\<rparr>
       in (case save_created_resource accepted resource s of
             (Inl e, s) \<Rightarrow> (Inl e, s)
           | (Inr u, s) \<Rightarrow> (Inr publication, s)))"

text \<open>
  \<^verbatim>\<open>Publication.delete\<close>: the CreatedResource rows are selected by \<^verbatim>\<open>object_id\<close> alone.
\<close>

definition Publication_delete :: "publication \<Rightarrow> db \<Rightarrow> (py_exception + unit) \<times> db" where
  "Publication_delete self =
     atomic (\<lambda>s.
       let s = s\<lparr>created_resources :=
                   filter (\<lambda>r. object_id r \<noteq> pk self) (created_resources s)\<rparr>;
           s = super_delete self s
       in (Inr (), s))"

definition Publication_enter :: "publication \<Rightarrow> publication" where
  "Publication_enter self = self"

text \<open>
  \<^verbatim>\<open>Publication.__exit__(exc_type, exc_val, exc_tb)\<close>. Only \<^verbatim>\<open>exc_val\<close> is read. The
  result is the return value (or the exception \<^verbatim>\<open>self.delete()\<close> raised), the instance
  and the database.
\<close>

definition Publication_exit ::
  "py_exception option \<Rightarrow> publication \<Rightarrow> db \<Rightarrow> (py_exception + py_value) \<times> publication \<times> db" where
  "Publication_exit exc_val self s =
     (if py_not exc_val then
        let self = self\<lparr>complete := True\<rparr>
        in (Inr PyNone, self, save self s)
      else
        (case Publication_delete self s of
           (Inl e, s') \<Rightarrow> (Inl e, self, s')
         | (Inr u, s') \<Rightarrow> (Inr PyNone, self, s')))"

text \<open>
  The \<^verbatim>\<open>with mgr as publication: body\<close> statement around these methods. The body gets the
  value of \<^verbatim>\<open>__enter__\<close> and the database, and ends with a value or an exception. After
  an exception the statement re-raises it unless \<^verbatim>\<open>__exit__\<close> returned a true value, in
  which case it ends normally with no value.
\<close>

definition with_publication ::
  "publication \<Rightarrow> (publication \<Rightarrow> db \<Rightarrow> (py_exception + 'a) \<times> publication \<times> db) \<Rightarrow> db
     \<Rightarrow> (py_exception + 'a option) \<times> publication \<times> db" where
  "with_publication mgr body s =
     (case body (Publication_enter mgr) s of
        (Inr v, p, s1) \<Rightarrow>
          (case Publication_exit None p s1 of
             (Inl e', p', s2) \<Rightarrow> (Inl e', p', s2)
           | (Inr r, p', s2) \<Rightarrow> (Inr (Some v), p', s2))
      | (Inl e, p, s1) \<Rightarrow>
          (case Publication_exit (Some e) p s1 of
             (Inl e', p', s2) \<Rightarrow> (Inl e', p', s2)
           | (Inr r, p', s2) \<Rightarrow> if truthy r then (Inr None, p', s2) else (Inl e, p', s2)))"

text \<open>
  The operations this file offers on the tables, as one step function: what the database
  is after the operation, whether it succeeded or raised.
\<close>

datatype operation =
    Create bool nat nat "nat option" bool
  | Exit "py_exception option" publication
  | Delete publication
  | AddArtifact published_artifact
  | AddMetadata published_metadata

fun apply_operation :: "operation \<Rightarrow> db \<Rightarrow> db" where
  "apply_operation (Create accepted new_pk rv publisher_arg pass_through_arg) s =
     snd (Publication_create accepted new_pk rv publisher_arg pass_through_arg s)"
| "apply_operation (Exit exc_val self) s = snd (snd (Publication_exit exc_val self s))"
| "apply_operation (Delete self) s = snd (Publication_delete self s)"
| "apply_operation (AddArtifact a) s = snd (save_published_artifact a s)"
| "apply_operation (AddMetadata m) s = snd (save_published_metadata m s)"

text \<open>The complete flag of the row with key \<open>k\<close>, if there is such a row.\<close>

definition complete_at :: "db \<Rightarrow> nat \<Rightarrow> bool option" where
  "complete_at s k = map_option complete (publications s k)"

section \<open>Tasks\<close>

text \<open>
  Modelled from the spec: the Task Lifecycle Manager is not among the sources (only its
  functional tests are). Section 4.2 names the states: waiting, running, canceling and the
  terminal states completed, failed and canceled.
\<close>

datatype task_state = Waiting | Running | Canceling | Completed | Failed | Canceled

text \<open>Modelled from the spec: the reservation modes of section 3.\<close>

datatype mode = Exclusive | Shared

text \<open>Modelled from the spec: the error taxonomy of section 7, as far as tasks raise it.\<close>

datatype task_error = InvalidRequest | ResourceTimeout | Conflict | NotFound

text \<open>
  Modelled from the spec: the Task of section 3 (state, the resources it requires, the
  submission, start and finish timestamps, the error detail). Its CreatedResource entries
  are rows of their own, each owned by one task.
\<close>

record task =
  state :: task_state
  requires :: "(string \<times> mode) list"
  submitted_at :: nat
  started_at :: "nat option"
  finished_at :: "nat option"
  error_detail :: "string option"

text \<open>
  Modelled from the spec: what the Task Lifecycle Manager keeps: the task records by id and
  the CreatedResource entries with the id of the owning task.
\<close>

record lifecycle =
  tasks :: "nat \<rightharpoonup> task"
  task_resources :: "(nat \<times> created_resource) list"

text \<open>
  Modelled from the spec: \<^verbatim>\<open>delete(task_id)\<close> of section 4.2: it fails with Conflict if the
  state is running or canceling; it is allowed for waiting and any terminal state, and then
  deletes the task record and its CreatedResource entries. An unknown id is NotFound
  (section 7).
\<close>

definition task_delete :: "nat \<Rightarrow> lifecycle \<Rightarrow> (task_error + unit) \<times> lifecycle" where
  "task_delete task_id s =
     (case tasks s task_id of
        None \<Rightarrow> (Inl NotFound, s)
      | Some t \<Rightarrow>
          if state t = Running \<or> state t = Canceling then (Inl Conflict, s)
          else (Inr (), s\<lparr>tasks := (tasks s)(task_id := None),
                          task_resources := filter (\<lambda>(owner, r). owner \<noteq> task_id) (task_resources s)\<rparr>))"

section \<open>Tasks: reservations\<close>

text \<open>
  Modelled from the spec: the Reservation Scheduler and the Resource Registry are not among
  the sources (only a functional test of them is). The state is the task records, the queue
  of waiting task ids in submission order, the holder entries of the registry (resource
  key, holding task, mode), the clock that stamps the tasks, and the configured bound on
  the time a task may wait (section 4.1).
\<close>

record scheduler =
  sched_tasks :: "nat \<rightharpoonup> task"
  queue :: "nat list"
  holders :: "(string \<times> nat \<times> mode) list"
  clock :: nat
  wait_bound :: nat

text \<open>
  Modelled from the spec: the terminal states of section 4.2, and the states in which a
  task is executing (running, with or without the canceling flag, section 3).
\<close>

definition terminal :: "task_state \<Rightarrow> bool" where
  "terminal st \<longleftrightarrow> st = Completed \<or> st = Failed \<or> st = Canceled"

definition active :: "task_state \<Rightarrow> bool" where
  "active st \<longleftrightarrow> st = Running \<or> st = Canceling"

text \<open>
  Modelled from the spec: the compatibility rule of \<^verbatim>\<open>dispatch\<close> in section 4.1: an
  exclusive request requires zero existing holders of the key, a shared request requires
  no existing exclusive holder of it.
\<close>

fun compatible :: "(string \<times> nat \<times> mode) list \<Rightarrow> string \<times> mode \<Rightarrow> bool" where
  "compatible hs (k, Exclusive) = list_all (\<lambda>(k', t, m). k' \<noteq> k) hs"
| "compatible hs (k, Shared) = list_all (\<lambda>(k', t, m). \<not> (k' = k \<and> m = Exclusive)) hs"

text \<open>
  Modelled from the spec: a resource set is refused when it has one key under two modes
  (section 4.1, \<^verbatim>\<open>reserve\<close>).
\<close>

definition conflicting :: "(string \<times> mode) list \<Rightarrow> bool" where
  "conflicting rs = list_ex (\<lambda>(k, m). list_ex (\<lambda>(k', m'). k' = k \<and> m' \<noteq> m) rs) rs"

text \<open>
  Modelled from the spec: \<^verbatim>\<open>reserve(task_id, resource_set)\<close> of section 4.1: it fails
  with InvalidRequest if the resource set is empty or has a key under conflicting modes,
  and otherwise enqueues the task. A task has one id and never returns to waiting
  (section 3), so an id that is already known is refused as well.
\<close>

definition reserve ::
  "nat \<Rightarrow> (string \<times> mode) list \<Rightarrow> 'a scheduler_scheme
     \<Rightarrow> (task_error + unit) \<times> 'a scheduler_scheme" where
  "reserve task_id resource_set s =
     (if resource_set = [] \<or> conflicting resource_set \<or> sched_tasks s task_id \<noteq> None
      then (Inl InvalidRequest, s)
      else (Inr (),
            s\<lparr>sched_tasks := (sched_tasks s)(task_id \<mapsto>
                 \<lparr>state = Waiting, requires = resource_set, submitted_at = clock s,
                  started_at = None, finished_at = None, error_detail = None\<rparr>),
              queue := queue s @ [task_id],
              clock := Suc (clock s)\<rparr>))"

text \<open>
  Modelled from the spec: a task the scheduler dispatches becomes running (section 4.2) and
  is a holder, in the requested mode, of every key it requested (section 3).
\<close>

definition start :: "nat \<Rightarrow> task \<Rightarrow> 'a scheduler_scheme \<Rightarrow> 'a scheduler_scheme" where
  "start task_id t s =
     s\<lparr>sched_tasks := (sched_tasks s)(task_id \<mapsto>
          t\<lparr>state := Running, started_at := Some (clock s)\<rparr>),
       holders := holders s @ map (\<lambda>(k, m). (k, task_id, m)) (requires t)\<rparr>"

text \<open>
  Modelled from the spec: \<^verbatim>\<open>dispatch()\<close> of section 4.1. The queue is evaluated in FIFO
  order. A task is started when every request of it is compatible with the current holders
  and none of its keys is requested by an earlier task that is still waiting (later
  same-resource tasks wait behind a blocked one); it then holds what it requested. A task
  that is not started stays in the queue, in its place, and its keys block the tasks
  behind it. \<open>dispatch_queue q blocked s\<close> evaluates the rest \<open>q\<close> of the queue; the
  queue of \<open>s\<close> holds the tasks evaluated so far that stay.
\<close>

fun dispatch_queue :: "nat list \<Rightarrow> string list \<Rightarrow> 'a scheduler_scheme \<Rightarrow> 'a scheduler_scheme" where
  "dispatch_queue [] blocked s = s"
| "dispatch_queue (task_id # q) blocked s =
     (case sched_tasks s task_id of
        None \<Rightarrow> dispatch_queue q blocked s
      | Some t \<Rightarrow>
          if list_all (compatible (holders s)) (requires t)
             \<and> list_all (\<lambda>(k, m). k \<notin> set blocked) (requires t)
          then dispatch_queue q blocked (start task_id t s)
          else dispatch_queue q (blocked @ map fst (requires t)) (s\<lparr>queue := queue s @ [task_id]\<rparr>))"

text \<open>
  Modelled from the spec: \<^verbatim>\<open>dispatch()\<close> evaluates the whole queue, with no key blocked
  at its head.
\<close>

definition dispatch :: "'a scheduler_scheme \<Rightarrow> 'a scheduler_scheme" where
  "dispatch s = dispatch_queue (queue s) [] (s\<lparr>queue := []\<rparr>)"

text \<open>
  Modelled from the spec: \<^verbatim>\<open>release(task_id)\<close> of section 4.1, invoked on task
  termination: it removes all holder entries of the task and runs dispatch again.
\<close>

definition release :: "nat \<Rightarrow> 'a scheduler_scheme \<Rightarrow> 'a scheduler_scheme" where
  "release task_id s =
     dispatch (s\<lparr>holders := filter (\<lambda>(k, t, m). t \<noteq> task_id) (holders s)\<rparr>)"

text \<open>
  Modelled from the spec: the failure of section 4.1: a task that has waited past the
  configured bound without acquiring its resources fails with ResourceTimeout. It leaves
  the queue and, as a task that has terminated, is released.
\<close>

definition timeout :: "nat \<Rightarrow> 'a scheduler_scheme \<Rightarrow> 'a scheduler_scheme" where
  "timeout task_id s =
     (case sched_tasks s task_id of
        None \<Rightarrow> s
      | Some t \<Rightarrow>
          if state t = Waiting \<and> submitted_at t + wait_bound s < clock s then
            release task_id
              (s\<lparr>sched_tasks := (sched_tasks s)(task_id \<mapsto>
                    t\<lparr>state := Failed, error_detail := Some ''ResourceTimeout''\<rparr>),
                 queue := removeAll task_id (queue s)\<rparr>)
          else s)"

text \<open>
  Modelled from the spec: \<^verbatim>\<open>request_cancel(task_id)\<close> of section 4.2. An unknown id is
  NotFound. A waiting task becomes canceled at once and leaves the queue, so it never runs;
  as a task that has terminated it is released, which dispatches the tasks that waited
  behind it. A running task gets the cooperative flag: it becomes canceling and goes on
  holding what it holds, since the manager does not stop its work. For a task that is
  already terminal the request is a no-op that returns the existing state; so it is for a
  task that is already canceling, whose flag is set.
\<close>

definition request_cancel ::
  "nat \<Rightarrow> 'a scheduler_scheme \<Rightarrow> (task_error + task_state) \<times> 'a scheduler_scheme" where
  "request_cancel task_id s =
     (case sched_tasks s task_id of
        None \<Rightarrow> (Inl NotFound, s)
      | Some t \<Rightarrow>
          if state t = Waiting then
            (Inr Canceled,
             release task_id
               (s\<lparr>sched_tasks := (sched_tasks s)(task_id \<mapsto> t\<lparr>state := Canceled\<rparr>),
                  queue := removeAll task_id (queue s)\<rparr>))
          else if state t = Running then
            (Inr Canceling,
             s\<lparr>sched_tasks := (sched_tasks s)(task_id \<mapsto> t\<lparr>state := Canceling\<rparr>)\<rparr>)
          else (Inr (state t), s))"

text \<open>
  Modelled from the spec: the worker of a canceling task reaches a checkpoint, observes the
  flag and transitions the task to canceled (sections 4.2 and 6); the task has terminated
  and is released. A canceled task has no completion timestamp (section 7).
\<close>

definition checkpoint :: "nat \<Rightarrow> 'a scheduler_scheme \<Rightarrow> 'a scheduler_scheme" where
  "checkpoint task_id s =
     (case sched_tasks s task_id of
        None \<Rightarrow> s
      | Some t \<Rightarrow>
          if state t = Canceling then
            release task_id
              (s\<lparr>sched_tasks := (sched_tasks s)(task_id \<mapsto> t\<lparr>state := Canceled\<rparr>)\<rparr>)
          else s)"

text \<open>
  Modelled from the spec: the worker reports a task failed, with its error detail
  (section 6); the task has terminated and is released. A task that is canceling and whose
  worker has not observed the flag runs on to completion or failure (section 5). A failed
  task has no completion timestamp (section 7), and what it has already done to the domain
  objects is not undone (section 4.2).
\<close>

definition fail :: "nat \<Rightarrow> string \<Rightarrow> 'a scheduler_scheme \<Rightarrow> 'a scheduler_scheme" where
  "fail task_id detail s =
     (case sched_tasks s task_id of
        None \<Rightarrow> s
      | Some t \<Rightarrow>
          if active (state t) then
            release task_id
              (s\<lparr>sched_tasks := (sched_tasks s)(task_id \<mapsto>
                    t\<lparr>state := Failed, error_detail := Some detail\<rparr>)\<rparr>)
          else s)"

text \<open>
  Modelled from the spec: \<^verbatim>\<open>delete(task_id)\<close> of section 4.2 on the records the scheduler
  keeps (\<open>task_delete\<close> above, without the CreatedResource entries, which are not part of
  this state): it fails with Conflict for a task that is running or canceling and deletes
  the record of any other task. The queue slot of a waiting task whose record is deleted
  is dropped by \<^verbatim>\<open>dispatch\<close>, which finds no record for it.
\<close>

definition delete_record ::
  "nat \<Rightarrow> 'a scheduler_scheme \<Rightarrow> (task_error + unit) \<times> 'a scheduler_scheme" where
  "delete_record task_id s =
     (case sched_tasks s task_id of
        None \<Rightarrow> (Inl NotFound, s)
      | Some t \<Rightarrow>
          if state t = Running \<or> state t = Canceling then (Inl Conflict, s)
          else (Inr (), s\<lparr>sched_tasks := (sched_tasks s)(task_id := None)\<rparr>))"

text \<open>
  Modelled from the spec: the work of the two tasks of section 8: an update sets the field
  of the resource with the given key to a value, a sync reads the field of a resource.
\<close>

datatype work = Update string string | Sync string

text \<open>
  Modelled from the spec: the scheduler together with the domain objects the workers act
  on: the work each task was submitted with, the tasks whose work has been done, in that
  order, the field of each resource, and what each sync read. \<open>submitted\<close> is the log of
  the reservations that were accepted, the requests and the submission stamp of each task;
  it outlives the task's record, so that what was submitted between two tasks can be told
  after records have been deleted.
\<close>

record world = scheduler +
  submitted :: "nat \<rightharpoonup> (string \<times> mode) list \<times> nat"
  work :: "nat \<rightharpoonup> work"
  performed :: "nat list"
  field :: "string \<Rightarrow> string"
  observed :: "nat \<rightharpoonup> string"

text \<open>
  Modelled from the spec: the worker of a task that is executing does the task's work once.
  A domain object is mutated only by a task that holds an exclusive reservation on its key
  (section 5).
\<close>

definition perform :: "nat \<Rightarrow> world \<Rightarrow> world" where
  "perform task_id s =
     (case (sched_tasks s task_id, work s task_id) of
        (Some t, Some w) \<Rightarrow>
          if active (state t) \<and> task_id \<notin> set (performed s) then
            (case w of
               Update k v \<Rightarrow>
                 if (k, task_id, Exclusive) \<in> set (holders s)
                 then s\<lparr>performed := performed s @ [task_id], field := (field s)(k := v)\<rparr>
                 else s\<lparr>performed := performed s @ [task_id]\<rparr>
             | Sync k \<Rightarrow>
                 s\<lparr>performed := performed s @ [task_id],
                   observed := (observed s)(task_id \<mapsto> field s k)\<rparr>)
          else s
      | _ \<Rightarrow> s)"

text \<open>
  Modelled from the spec: the worker reports a task completed when its work is done; the
  task terminates, with its completion timestamp, and the scheduler releases what it held
  (sections 4.1 and 6).
\<close>

definition finish :: "nat \<Rightarrow> world \<Rightarrow> world" where
  "finish task_id s =
     (case sched_tasks s task_id of
        None \<Rightarrow> s
      | Some t \<Rightarrow>
          if active (state t) \<and> task_id \<in> set (performed s) then
            release task_id
              (s\<lparr>sched_tasks := (sched_tasks s)(task_id \<mapsto>
                    t\<lparr>state := Completed, finished_at := Some (clock s)\<rparr>),
                 clock := Suc (clock s)\<rparr>)
          else s)"

text \<open>
  Modelled from the spec: what can happen, one event at a time: a submitter reserves
  resources for a task or requests its cancellation, the scheduler dispatches or times a
  waiting task out, a worker does the work of a task, reports it completed or failed, or
  observes the cancellation flag at a checkpoint, a task's record is deleted, and time
  passes. These are the operations of sections 4.1 and 4.2 and the transitions of the state
  machine of section 4.2. A run is any sequence of events; an event that does not apply
  leaves the state as it is.
\<close>

datatype event =
    Reserve nat "(string \<times> mode) list" work
  | Dispatch
  | Timeout nat
  | Cancel nat
  | Perform nat
  | Checkpoint nat
  | Finish nat
  | Fail nat string
  | Delete nat
  | Tick

text \<open>
  Modelled from the spec: the state after one event. An id names one task for ever
  (section 3), so a reservation under an id that has been used is not made. A reservation
  that is refused changes nothing; one that is accepted is also entered in the log, with
  the work the task was submitted with.
\<close>

fun step :: "world \<Rightarrow> event \<Rightarrow> world" where
  "step s (Reserve task_id resource_set w) =
     (if submitted s task_id \<noteq> None then s
      else
        (case reserve task_id resource_set s of
           (Inl e, s') \<Rightarrow> s
         | (Inr u, s') \<Rightarrow>
             s'\<lparr>submitted := (submitted s')(task_id \<mapsto> (resource_set, clock s)),
                work := (work s')(task_id \<mapsto> w)\<rparr>))"
| "step s Dispatch = dispatch s"
| "step s (Timeout task_id) = timeout task_id s"
| "step s (Cancel task_id) = snd (request_cancel task_id s)"
| "step s (Perform task_id) = perform task_id s"
| "step s (Checkpoint task_id) = checkpoint task_id s"
| "step s (Finish task_id) = finish task_id s"
| "step s (Fail task_id detail) = fail task_id detail s"
| "step s (Delete task_id) = snd (delete_record task_id s)"
| "step s Tick = s\<lparr>clock := Suc (clock s)\<rparr>"

text \<open>Modelled from the spec: the state after a sequence of events, taken in order.\<close>

definition run :: "world \<Rightarrow> event list \<Rightarrow> world" where
  "run s events = foldl step s events"

text \<open>
  Modelled from the spec: the state before anything is submitted: no task, no holder, the
  configured bound on waiting, and the fields of the resources as given.
\<close>

definition initial_world :: "nat \<Rightarrow> (string \<Rightarrow> string) \<Rightarrow> world" where
  "initial_world bound init =
     \<lparr>sched_tasks = Map.empty, queue = [], holders = [], clock = 0, wait_bound = bound,
      submitted = Map.empty, work = Map.empty, performed = [], field = init, observed = Map.empty\<rparr>"

subsection \<open>Invariants of the scheduler\<close>

text \<open>
  What holds of every state a run reaches: the queue lists the waiting tasks in submission
  order (and nothing else that has a record), the stamps lie below the clock and tell the tasks apart, the holder entries are
  the requests of the tasks that are executing, and of two tasks that request the same key
  exclusively the later one has not started unless the earlier one has terminated.
\<close>

definition submitted_before :: "(nat \<rightharpoonup> task) \<Rightarrow> nat \<Rightarrow> nat \<Rightarrow> bool" where
  "submitted_before ts t1 t2 \<longleftrightarrow>
     (\<forall>a b. ts t1 = Some a \<longrightarrow> ts t2 = Some b \<longrightarrow> submitted_at a < submitted_at b)"

definition waiting_list :: "nat list \<Rightarrow> (nat \<rightharpoonup> task) \<Rightarrow> bool" where
  "waiting_list w ts \<longleftrightarrow>
     distinct w
   \<and> (\<forall>t a. ts t = Some a \<longrightarrow> (t \<in> set w \<longleftrightarrow> state a = Waiting))
   \<and> sorted_wrt (submitted_before ts) w"

definition stamps_ok :: "(nat \<rightharpoonup> task) \<Rightarrow> nat \<Rightarrow> bool" where
  "stamps_ok ts c \<longleftrightarrow>
     (\<forall>t a. ts t = Some a \<longrightarrow>
        submitted_at a < c
      \<and> (\<forall>f. finished_at a = Some f \<longrightarrow> f < c)
      \<and> (active (state a) \<longrightarrow> started_at a \<noteq> None))
   \<and> (\<forall>t1 t2 a b. ts t1 = Some a \<longrightarrow> ts t2 = Some b
        \<longrightarrow> submitted_at a = submitted_at b \<longrightarrow> t1 = t2)"

definition holders_ok :: "(nat \<rightharpoonup> task) \<Rightarrow> (string \<times> nat \<times> mode) list \<Rightarrow> bool" where
  "holders_ok ts hs \<longleftrightarrow>
     (\<forall>k t m. (k, t, m) \<in> set hs \<longleftrightarrow>
        (\<exists>a. ts t = Some a \<and> active (state a) \<and> (k, m) \<in> set (requires a)))"

definition in_order :: "(nat \<rightharpoonup> task) \<Rightarrow> bool" where
  "in_order ts \<longleftrightarrow>
     (\<forall>t1 t2 a b k g. ts t1 = Some a \<longrightarrow> ts t2 = Some b
        \<longrightarrow> (k, Exclusive) \<in> set (requires a) \<longrightarrow> (k, Exclusive) \<in> set (requires b)
        \<longrightarrow> submitted_at a < submitted_at b \<longrightarrow> started_at b = Some g
        \<longrightarrow> terminal (state a) \<and> (\<forall>f. finished_at a = Some f \<longrightarrow> f < g))"

definition sched_inv :: "nat list \<Rightarrow> 'a scheduler_scheme \<Rightarrow> bool" where
  "sched_inv w s \<longleftrightarrow>
     waiting_list w (sched_tasks s) \<and> stamps_ok (sched_tasks s) (clock s)
   \<and> holders_ok (sched_tasks s) (holders s) \<and> in_order (sched_tasks s)"


subsection \<open>Invariants of the workers' effects\<close>

text \<open>
  A task is executing when its record is running or canceling, and pending when it has a
  record and a slot in the queue.
\<close>

definition executing :: "'a scheduler_scheme \<Rightarrow> nat \<Rightarrow> bool" where
  "executing s t \<longleftrightarrow> (\<exists>a. sched_tasks s t = Some a \<and> active (state a))"

definition pending :: "'a scheduler_scheme \<Rightarrow> nat \<Rightarrow> bool" where
  "pending s t \<longleftrightarrow> t \<in> set (queue s) \<and> sched_tasks s t \<noteq> None"










section \<open>Example data\<close>

definition empty_db :: db where
  "empty_db = \<lparr>publications = Map.empty, published_artifacts = [], published_metadata = [],
               created_resources = []\<rparr>"

definition example_publication :: publication where
  "example_publication =
     \<lparr>pk = 1, complete = False, pass_through = False, publisher = Some 4, repository_version = 7\<rparr>"

definition example_db :: db where
  "example_db = snd (Publication_create True 1 7 (Some 4) False empty_db)"

definition example_artifact :: "publication \<Rightarrow> published_artifact" where
  "example_artifact p =
     \<lparr>pa_relative_path = ''1.iso'', pa_publication = pk p, pa_content_artifact = 3\<rparr>"

definition example_metadata :: "publication \<Rightarrow> published_metadata" where
  "example_metadata p =
     \<lparr>pm_relative_path = ''PULP_MANIFEST'', pm_publication = pk p, pm_file = ''manifest-1''\<rparr>"

text \<open>
  The body of the class docstring's example: it saves one PublishedArtifact and one
  PublishedMetadata for the publication.
\<close>

definition example_body :: "publication \<Rightarrow> db \<Rightarrow> (py_exception + unit) \<times> publication \<times> db" where
  "example_body p s =
     (case save_published_artifact (example_artifact p) s of
        (Inl e, s1) \<Rightarrow> (Inl e, p, s1)
      | (Inr u, s1) \<Rightarrow>
          (case save_published_metadata (example_metadata p) s1 of
             (Inl e, s2) \<Rightarrow> (Inl e, p, s2)
           | (Inr u, s2) \<Rightarrow> (Inr (), p, s2)))"

text \<open>The same body, going on to save a second artifact under the path of the first.\<close>

definition repeating_body :: "publication \<Rightarrow> db \<Rightarrow> (py_exception + unit) \<times> publication \<times> db" where
  "repeating_body p s =
     (case example_body p s of
        (Inl e, p1, s1) \<Rightarrow> (Inl e, p1, s1)
      | (Inr u, p1, s1) \<Rightarrow>
          (case save_published_artifact ((example_artifact p1)\<lparr>pa_content_artifact := 5\<rparr>) s1 of
             (Inl e, s2) \<Rightarrow> (Inl e, p1, s2)
           | (Inr u, s2) \<Rightarrow> (Inr (), p1, s2)))"

text \<open>
  An exception whose class makes its instances false, as in
  \<^verbatim>\<open>class Empty(Exception): __len__ = lambda self: 0\<close>, and a body that raises it
  after its two saves.
\<close>

definition falsy_exception :: py_exception where
  "falsy_exception = Raised ''Empty'' False"

definition falsy_raising_body :: "publication \<Rightarrow> db \<Rightarrow> (py_exception + unit) \<times> publication \<times> db" where
  "falsy_raising_body p s =
     (case example_body p s of
        (Inl e, p1, s1) \<Rightarrow> (Inl e, p1, s1)
      | (Inr u, p1, s1) \<Rightarrow> (Inl falsy_exception, p1, s1))"

text \<open>
  A body that assigns \<^verbatim>\<open>publication.pass_through = True\<close> on the instance and saves
  nothing.
\<close>

definition assigning_body :: "publication \<Rightarrow> db \<Rightarrow> (py_exception + unit) \<times> publication \<times> db" where
  "assigning_body p s = (Inr (), p\<lparr>pass_through := True\<rparr>, s)"

text \<open>The database the example body leaves.\<close>

definition populated_db :: db where
  "populated_db = snd (snd (example_body example_publication example_db))"

definition example_task :: "task_state \<Rightarrow> task" where
  "example_task st =
     \<lparr>state = st, requires = [(''remote-1'', Exclusive)], submitted_at = 10,
      started_at = None, finished_at = None, error_detail = None\<rparr>"

definition example_lifecycle :: "task_state \<Rightarrow> lifecycle" where
  "example_lifecycle st =
     \<lparr>tasks = [5 \<mapsto> example_task st],
      task_resources = [(5, \<lparr>content_type = ''publication'', object_id = 1\<rparr>),
                        (6, \<lparr>content_type = ''publication'', object_id = 2\<rparr>)]\<rparr>"

subsection \<open>The run of the functional test\<close>





text \<open>
  The run of the test with the update canceled while it waits: it never runs, and the sync
  is dispatched and done.
\<close>

definition canceled_run :: "event list" where
  "canceled_run =
     [Reserve 1 [(''remote'', Exclusive)] (Update ''remote'' ''url-2''),
      Reserve 2 [(''remote'', Exclusive), (''repo'', Exclusive)] (Sync ''remote''),
      Cancel 1, Dispatch, Perform 1, Perform 2]"

definition canceled_world :: world where
  "canceled_world = run (initial_world 100 (\<lambda>k. ''url-1'')) canceled_run"

text \<open>
  The run with the second update, whose record is deleted once it has completed, before
  the sync is done.
\<close>

definition deleting_run :: "event list" where
  "deleting_run =
     [Reserve 1 [(''remote'', Exclusive)] (Update ''remote'' ''url-2''),
      Reserve 2 [(''remote'', Exclusive)] (Update ''remote'' ''url-3''),
      Reserve 3 [(''remote'', Exclusive), (''repo'', Exclusive)] (Sync ''remote''),
      Dispatch, Perform 1, Finish 1, Perform 2, Finish 2, Delete 2, Perform 3]"

definition deleting_world :: world where
  "deleting_world = run (initial_world 100 (\<lambda>k. ''url-1'')) deleting_run"

section \<open>Publications: what the methods do\<close>

subsection \<open>Closed forms\<close>

lemma atomic_rolls_back: "block s = (Inl e, s') \<Longrightarrow> atomic block s = (Inl e, s)"
  by (simp add: atomic_def)

lemma atomic_keeps: "block s = (Inr v, s') \<Longrightarrow> atomic block s = (Inr v, s')"
  by (simp add: atomic_def)

lemma Publication_create_eq:
  "Publication_create True new_pk rv publisher_arg pass_through_arg s =
     (Inr \<lparr>pk = new_pk, complete = False, pass_through = pass_through_arg,
           publisher = publisher_arg, repository_version = rv\<rparr>,
      s\<lparr>publications := (publications s)(new_pk \<mapsto>
           \<lparr>pk = new_pk, complete = False, pass_through = pass_through_arg,
            publisher = publisher_arg, repository_version = rv\<rparr>),
        created_resources :=
          created_resources s @ [\<lparr>content_type = ''publication'', object_id = new_pk\<rparr>]\<rparr>)"
  by (cases publisher_arg)
     (simp_all add: Publication_create_def atomic_def save_def save_created_resource_def Let_def)

lemma Publication_create_refused:
  "Publication_create False new_pk rv publisher_arg pass_through_arg s =
     (Inl (Raised ''DatabaseError'' True), s)"
  by (simp add: Publication_create_def atomic_def save_created_resource_def Let_def)

lemma Publication_delete_eq:
  "Publication_delete self s =
     (Inr (), s\<lparr>publications := (publications s)(pk self := None),
                published_artifacts :=
                  filter (\<lambda>a. pa_publication a \<noteq> pk self) (published_artifacts s),
                published_metadata :=
                  filter (\<lambda>m. pm_publication m \<noteq> pk self) (published_metadata s),
                created_resources :=
                  filter (\<lambda>r. object_id r \<noteq> pk self) (created_resources s)\<rparr>)"
  by (simp add: Publication_delete_def atomic_def super_delete_def)

lemma Publication_exit_commit:
  "py_not exc_val \<Longrightarrow>
   Publication_exit exc_val self s =
     (Inr PyNone, self\<lparr>complete := True\<rparr>,
      s\<lparr>publications := (publications s)(pk self \<mapsto> self\<lparr>complete := True\<rparr>)\<rparr>)"
  by (simp add: Publication_exit_def Let_def save_def)

lemma Publication_exit_abort:
  "\<not> py_not exc_val \<Longrightarrow>
   Publication_exit exc_val self s = (Inr PyNone, self, snd (Publication_delete self s))"
  by (simp add: Publication_exit_def Publication_delete_eq)

lemma Publication_exit_returns_None: "fst (Publication_exit exc_val self s) = Inr PyNone"
  by (cases "py_not exc_val") (simp_all add: Publication_exit_commit Publication_exit_abort)

lemma exit_abort_removes_rows:
  assumes "exc_bool e"
  shows "case Publication_exit (Some e) self s of
           (r, self', s') \<Rightarrow>
             r = Inr PyNone
           \<and> publications s' (pk self) = None
           \<and> (\<forall>a\<in>set (published_artifacts s'). pa_publication a \<noteq> pk self)
           \<and> (\<forall>m\<in>set (published_metadata s'). pm_publication m \<noteq> pk self)
           \<and> (\<forall>r\<in>set (created_resources s'). object_id r \<noteq> pk self)"
  using assms by (simp add: Publication_exit_abort py_not_def Publication_delete_eq)

subsection \<open>The example data, evaluated\<close>

lemma example_db_eq:
  "example_db =
     \<lparr>publications = [1 \<mapsto> example_publication], published_artifacts = [],
      published_metadata = [],
      created_resources = [\<lparr>content_type = ''publication'', object_id = 1\<rparr>]\<rparr>"
  by (simp add: example_db_def Publication_create_eq empty_db_def example_publication_def)

lemma example_body_eq:
  "example_body (Publication_enter example_publication) example_db =
     (Inr (), example_publication,
      example_db\<lparr>published_artifacts := [example_artifact example_publication],
                 published_metadata := [example_metadata example_publication]\<rparr>)"
  by (simp add: example_db_eq example_body_def Publication_enter_def save_published_artifact_def
        save_published_metadata_def)

lemma populated_db_eq:
  "populated_db =
     example_db\<lparr>published_artifacts := [example_artifact example_publication],
                published_metadata := [example_metadata example_publication]\<rparr>"
  using example_body_eq by (simp add: populated_db_def Publication_enter_def)

lemma repeating_body_eq:
  "repeating_body (Publication_enter example_publication) example_db =
     (Inl DuplicatePath, example_publication,
      example_db\<lparr>published_artifacts := [example_artifact example_publication],
                 published_metadata := [example_metadata example_publication]\<rparr>)"
  by (simp add: repeating_body_def example_body_eq)
     (simp add: example_db_eq save_published_artifact_def artifact_clash_def example_artifact_def)

lemma falsy_raising_body_eq:
  "falsy_raising_body (Publication_enter example_publication) example_db =
     (Inl falsy_exception, example_publication,
      example_db\<lparr>published_artifacts := [example_artifact example_publication],
                 published_metadata := [example_metadata example_publication]\<rparr>)"
  by (simp add: falsy_raising_body_def example_body_eq)

subsection \<open>Leaving the scope without an exception\<close>

text \<open>
  C1. When the body of a publication scope ends without an exception, the scope exit sets
  the instance's complete flag and saves it: afterwards the row with the publication's key
  is the instance with complete = True, no other publication row has changed, and the
  PublishedArtifact, PublishedMetadata and CreatedResource rows are those the body left.
\<close>

theorem scope_exit_commit:
  assumes "body (Publication_enter mgr) s = (Inr v, p, s1)"
  shows "case with_publication mgr body s of
           (r, p', s2) \<Rightarrow>
             r = Inr (Some v) \<and> p' = p\<lparr>complete := True\<rparr> \<and> complete p'
           \<and> publications s2 = (publications s1)(pk p \<mapsto> p')
           \<and> published_artifacts s2 = published_artifacts s1
           \<and> published_metadata s2 = published_metadata s1
           \<and> created_resources s2 = created_resources s1"
  using assms by (simp add: with_publication_def Publication_exit_commit py_not_def)

theorem scope_exit_commit_witness:
  "(case with_publication example_publication example_body example_db of
      (r, p', s2) \<Rightarrow>
        r = Inr (Some ()) \<and> complete p'
      \<and> publications s2 = [1 \<mapsto> example_publication\<lparr>complete := True\<rparr>]
      \<and> published_artifacts s2 = [example_artifact example_publication]
      \<and> published_metadata s2 = [example_metadata example_publication])"
proof -
  have body: "example_body (Publication_enter example_publication) example_db =
      (Inr (), example_publication, populated_db)"
    by (simp add: example_body_eq populated_db_eq)
  have key: "pk example_publication = 1"
    by (simp add: example_publication_def)
  from scope_exit_commit [of example_body example_publication example_db "()"
      example_publication populated_db, OF body]
  show ?thesis
    by (auto simp: populated_db_eq example_db_eq key)
qed

subsection \<open>Leaving the scope with an exception\<close>

text \<open>
  C2. The claim is that every scope exit with an exception deletes the publication and its
  rows. \<^verbatim>\<open>__exit__\<close> tests \<^verbatim>\<open>not exc_val\<close>, the truth value of the exception instance:
  a body that has saved an artifact and a metadata file and then raises an instance whose
  class makes it false leaves the scope with the exception, and the publication row is
  there with complete = True, next to its artifact, metadata and CreatedResource rows.
\<close>

theorem falsy_exception_exit_keeps_rows:
  "with_publication example_publication falsy_raising_body example_db =
     (Inl falsy_exception, example_publication\<lparr>complete := True\<rparr>,
      \<lparr>publications = [1 \<mapsto> example_publication\<lparr>complete := True\<rparr>],
       published_artifacts = [example_artifact example_publication],
       published_metadata = [example_metadata example_publication],
       created_resources = [\<lparr>content_type = ''publication'', object_id = 1\<rparr>]\<rparr>)"
  by (simp add: with_publication_def falsy_raising_body_eq Publication_exit_commit py_not_def
        falsy_exception_def)
     (simp add: example_db_eq example_publication_def)

text \<open>
  \<^verbatim>\<open>__exit__\<close> has no \<^verbatim>\<open>return\<close>: whatever the body raised, it returns None, which is
  false, so the \<^verbatim>\<open>with\<close> statement raises the body's exception again. For an exception
  instance that is true, the publication row, its PublishedArtifact and PublishedMetadata
  rows and its CreatedResource row are gone by then, and the rows of other publications are
  those the body left.
\<close>

lemma exit_never_suppresses:
  assumes "body (Publication_enter mgr) s = (Inl e, p, s1)"
  shows "fst (Publication_exit (Some e) p s1) = Inr PyNone
       \<and> \<not> truthy PyNone
       \<and> fst (with_publication mgr body s) = Inl e
       \<and> (exc_bool e \<longrightarrow>
            (case with_publication mgr body s of
               (r, p', s2) \<Rightarrow>
                 publications s2 = (publications s1)(pk p := None)
               \<and> published_artifacts s2 =
                   filter (\<lambda>a. pa_publication a \<noteq> pk p) (published_artifacts s1)
               \<and> published_metadata s2 =
                   filter (\<lambda>m. pm_publication m \<noteq> pk p) (published_metadata s1)
               \<and> created_resources s2 =
                   filter (\<lambda>r. object_id r \<noteq> pk p) (created_resources s1)))"
  using assms
  by (cases "py_not (Some e)")
     (simp_all add: with_publication_def Publication_exit_commit Publication_exit_abort
        Publication_delete_eq py_not_def)

text \<open>
  C9. The claim is that the exception leaves the scope after the publication and its rows
  are deleted. At the exit with an exception instance that is false, \<^verbatim>\<open>__exit__\<close> returns
  None, which is false, and the \<^verbatim>\<open>with\<close> statement raises the exception again, but
  nothing has been deleted: the exit has saved the publication with complete = True, and
  the artifact, metadata and CreatedResource rows are those the body left.
\<close>

theorem falsy_exception_propagates_undeleted:
  "Publication_exit (Some falsy_exception) example_publication populated_db =
     (Inr PyNone, example_publication\<lparr>complete := True\<rparr>,
      populated_db\<lparr>publications := [1 \<mapsto> example_publication\<lparr>complete := True\<rparr>]\<rparr>)
 \<and> truthy PyNone = False
 \<and> fst (with_publication example_publication falsy_raising_body example_db) =
     Inl falsy_exception
 \<and> published_artifacts populated_db = [example_artifact example_publication]
 \<and> published_metadata populated_db = [example_metadata example_publication]
 \<and> created_resources populated_db = [\<lparr>content_type = ''publication'', object_id = 1\<rparr>]"
  by (simp add: with_publication_def falsy_raising_body_eq Publication_exit_commit py_not_def
        falsy_exception_def populated_db_eq)
     (simp add: example_db_eq example_publication_def)

subsection \<open>What the exit writes\<close>

text \<open>
  On the branch without an exception \<^verbatim>\<open>__exit__\<close> assigns \<^verbatim>\<open>self.complete\<close> and nothing
  else on the instance it is called on, and \<^verbatim>\<open>self.save()\<close> writes that instance, all its
  fields, over the row with its key.
\<close>

lemma exit_frame:
  "case Publication_exit None self s of
     (r, self', s') \<Rightarrow>
       pk self' = pk self
     \<and> pass_through self' = pass_through self
     \<and> publisher self' = publisher self
     \<and> repository_version self' = repository_version self
     \<and> complete self'
     \<and> self' = self\<lparr>complete := True\<rparr>
     \<and> publications s' = (publications s)(pk self \<mapsto> self')
     \<and> published_artifacts s' = published_artifacts s
     \<and> published_metadata s' = published_metadata s
     \<and> created_resources s' = created_resources s"
  by (simp add: Publication_exit_commit py_not_def)

text \<open>
  The claim C10 is that pass_through, publisher and repository_version keep, over a scope
  exit without an exception, the values they had when the scope was entered. A body that
  assigns \<^verbatim>\<open>pass_through = True\<close> on the instance and saves nothing leaves the row as it was
  at scope entry, with pass_through False; the exit then saves the instance, and the row's
  pass_through is True.
\<close>

theorem scope_exit_saves_assigned_field:
  "publications example_db 1 = Some example_publication
 \<and> pass_through example_publication = False
 \<and> assigning_body (Publication_enter example_publication) example_db =
     (Inr (), example_publication\<lparr>pass_through := True\<rparr>, example_db)
 \<and> with_publication example_publication assigning_body example_db =
     (Inr (Some ()), example_publication\<lparr>pass_through := True, complete := True\<rparr>,
      example_db\<lparr>publications :=
        [1 \<mapsto> example_publication\<lparr>pass_through := True, complete := True\<rparr>]\<rparr>)
 \<and> pass_through (example_publication\<lparr>pass_through := True, complete := True\<rparr>) = True"
  by (simp add: with_publication_def assigning_body_def Publication_enter_def
        Publication_exit_commit py_not_def)
     (simp add: example_db_eq example_publication_def)

text \<open>
  C10, amended. When the body ends without an exception, the scope exit changes no field
  of the instance but complete, and the row it writes is that instance. So each of
  pass_through, publisher and repository_version that the body has not assigned on the
  instance has, on the instance and in the row after the exit, the value the instance had
  when the scope was entered; for a publication whose row at scope entry is the instance
  the scope is entered with, that is the value the row had when the scope was entered. The
  key is the row's, and the row is complete.
\<close>

theorem scope_exit_frame:
  assumes "body (Publication_enter mgr) s = (Inr v, p, s1)"
    and "pk p = pk mgr"
  shows "case with_publication mgr body s of
           (r, p', s2) \<Rightarrow>
             p' = p\<lparr>complete := True\<rparr>
           \<and> publications s2 (pk mgr) = Some p'
           \<and> map_option complete (publications s2 (pk mgr)) = Some True
           \<and> (pass_through p = pass_through mgr \<longrightarrow>
                pass_through p' = pass_through mgr
              \<and> map_option pass_through (publications s2 (pk mgr)) = Some (pass_through mgr))
           \<and> (publisher p = publisher mgr \<longrightarrow>
                publisher p' = publisher mgr
              \<and> map_option publisher (publications s2 (pk mgr)) = Some (publisher mgr))
           \<and> (repository_version p = repository_version mgr \<longrightarrow>
                repository_version p' = repository_version mgr
              \<and> map_option repository_version (publications s2 (pk mgr)) =
                  Some (repository_version mgr))
           \<and> (publications s (pk mgr) = Some mgr \<longrightarrow>
                (pass_through p = pass_through mgr \<longrightarrow>
                   map_option pass_through (publications s2 (pk mgr)) =
                   map_option pass_through (publications s (pk mgr)))
              \<and> (publisher p = publisher mgr \<longrightarrow>
                   map_option publisher (publications s2 (pk mgr)) =
                   map_option publisher (publications s (pk mgr)))
              \<and> (repository_version p = repository_version mgr \<longrightarrow>
                   map_option repository_version (publications s2 (pk mgr)) =
                   map_option repository_version (publications s (pk mgr)))
              \<and> map_option pk (publications s2 (pk mgr)) =
                  map_option pk (publications s (pk mgr)))"
  using assms by (simp add: with_publication_def Publication_exit_commit py_not_def)

theorem scope_exit_frame_witness:
  "publications example_db 1 = Some example_publication
 \<and> (case with_publication example_publication example_body example_db of
      (r, p', s2) \<Rightarrow>
        p' = example_publication\<lparr>complete := True\<rparr>
      \<and> publications s2 1 = Some p'
      \<and> map_option pass_through (publications s2 1) =
          map_option pass_through (publications example_db 1)
      \<and> map_option pass_through (publications s2 1) = Some False
      \<and> map_option publisher (publications s2 1) = Some (Some 4)
      \<and> map_option repository_version (publications s2 1) = Some 7)"
proof -
  have body: "example_body (Publication_enter example_publication) example_db =
      (Inr (), example_publication, populated_db)"
    by (simp add: example_body_eq populated_db_eq)
  have key: "pk example_publication = 1"
    by (simp add: example_publication_def)
  have entry: "publications example_db (pk example_publication) = Some example_publication"
    by (simp add: example_db_eq key)
  from scope_exit_frame [of example_body example_publication example_db "()"
      example_publication populated_db, OF body refl] entry
  show ?thesis
    by (auto simp: key example_publication_def)
qed

subsection \<open>Adding rows\<close>

text \<open>
  C3. Saving a PublishedArtifact whose publication and content_artifact, or publication and
  relative_path, are those of a row already in the table fails with DuplicatePath and
  leaves the database as it was; the same for a PublishedMetadata and its file or
  relative_path.
\<close>

theorem duplicate_add_refused:
  "(\<forall>b\<in>set (published_artifacts s).
      pa_publication b = pa_publication a
      \<and> (pa_content_artifact b = pa_content_artifact a \<or> pa_relative_path b = pa_relative_path a)
      \<longrightarrow> save_published_artifact a s = (Inl DuplicatePath, s))
 \<and> (\<forall>n\<in>set (published_metadata s).
      pm_publication n = pm_publication m
      \<and> (pm_file n = pm_file m \<or> pm_relative_path n = pm_relative_path m)
      \<longrightarrow> save_published_metadata m s = (Inl DuplicatePath, s))"
  by (auto simp: save_published_artifact_def save_published_metadata_def list_ex_iff
        artifact_clash_def metadata_clash_def)

theorem duplicate_add_refused_witness:
  "save_published_artifact ((example_artifact example_publication)\<lparr>pa_content_artifact := 5\<rparr>)
     populated_db = (Inl DuplicatePath, populated_db)
 \<and> save_published_metadata ((example_metadata example_publication)\<lparr>pm_relative_path := ''x''\<rparr>)
     populated_db = (Inl DuplicatePath, populated_db)"
  using duplicate_add_refused [of populated_db
      "(example_artifact example_publication)\<lparr>pa_content_artifact := 5\<rparr>"
      "(example_metadata example_publication)\<lparr>pm_relative_path := ''x''\<rparr>"]
  by (simp add: populated_db_eq)

subsection \<open>Creating a publication\<close>

text \<open>
  C5. \<^verbatim>\<open>Publication.create\<close> runs in one atomic block. When the CreatedResource row is
  taken, it returns the new instance: its complete flag is False, its other fields are the
  arguments, the publication table has it under its key, the CreatedResource table has
  gained one row that refers to it, and nothing else in the database has changed. When the
  CreatedResource row is refused, the call raises and the database is as it was before the
  call: the publication row saved earlier in the block is not there.
\<close>

theorem create_inserts_incomplete:
  "case Publication_create accepted new_pk rv publisher_arg pass_through_arg s of
     (r, s') \<Rightarrow>
       (accepted \<longrightarrow>
          (\<exists>p. r = Inr p \<and> pk p = new_pk \<and> \<not> complete p \<and> pass_through p = pass_through_arg
             \<and> publisher p = publisher_arg \<and> repository_version p = rv
             \<and> publications s' = (publications s)(new_pk \<mapsto> p))
        \<and> created_resources s' =
            created_resources s @ [\<lparr>content_type = ''publication'', object_id = new_pk\<rparr>]
        \<and> published_artifacts s' = published_artifacts s
        \<and> published_metadata s' = published_metadata s)
     \<and> (\<not> accepted \<longrightarrow> (\<exists>e. r = Inl e) \<and> s' = s)"
  by (cases accepted) (simp_all add: Publication_create_eq Publication_create_refused)

theorem create_inserts_incomplete_witness:
  "(\<exists>p. fst (Publication_create True 1 7 (Some 4) False empty_db) = Inr p
       \<and> pk p = 1 \<and> complete p = False \<and> publisher p = Some 4 \<and> repository_version p = 7
       \<and> publications (snd (Publication_create True 1 7 (Some 4) False empty_db)) = [1 \<mapsto> p])
 \<and> created_resources (snd (Publication_create True 1 7 (Some 4) False empty_db)) =
     [\<lparr>content_type = ''publication'', object_id = 1\<rparr>]
 \<and> (\<exists>e. fst (Publication_create False 1 7 (Some 4) False empty_db) = Inl e)
 \<and> snd (Publication_create False 1 7 (Some 4) False empty_db) = empty_db"
  using create_inserts_incomplete [where accepted = True and new_pk = 1 and rv = 7
      and publisher_arg = "Some 4" and pass_through_arg = False and s = empty_db]
    create_inserts_incomplete [where accepted = False and new_pk = 1 and rv = 7
      and publisher_arg = "Some 4" and pass_through_arg = False and s = empty_db]
  by (auto simp: empty_db_def split: prod.splits)

subsection \<open>The complete flag over the operations\<close>

text \<open>
  Once a row's complete flag is True no operation makes it False: the row stays complete or
  is deleted. (Create gives its row a key of its own.)
\<close>

lemma complete_never_reset:
  assumes "complete_at s k = Some True"
    and "\<And>acc new_pk rv pb pt. op = Create acc new_pk rv pb pt \<Longrightarrow> new_pk \<notin> dom (publications s)"
  shows "complete_at (apply_operation op s) k \<noteq> Some False"
proof (cases op)
  case (Create acc new_pk rv pb pt)
  with assms have "new_pk \<noteq> k" by (auto simp: complete_at_def)
  with assms(1) Create show ?thesis
    by (cases acc) (auto simp: complete_at_def Publication_create_eq Publication_create_refused)
next
  case (Exit exc_val self)
  with assms(1) show ?thesis
    by (cases "py_not exc_val")
       (auto simp: complete_at_def Publication_exit_commit Publication_exit_abort
          Publication_delete_eq)
next
  case (Delete self)
  with assms(1) show ?thesis by (auto simp: complete_at_def Publication_delete_eq)
next
  case (AddArtifact a)
  with assms(1) show ?thesis
    by (auto simp: complete_at_def save_published_artifact_def split: if_splits)
next
  case (AddMetadata m)
  with assms(1) show ?thesis
    by (auto simp: complete_at_def save_published_metadata_def split: if_splits)
qed

text \<open>
  The only operation after which a row is complete that was not so before is
  \<^verbatim>\<open>__exit__\<close> on an instance with that key, with an \<^verbatim>\<open>exc_val\<close> that is None or false.
\<close>

lemma complete_set_only_by_exit:
  assumes "complete_at (apply_operation op s) k = Some True"
    and "complete_at s k \<noteq> Some True"
  shows "\<exists>exc_val self. op = Exit exc_val self \<and> pk self = k \<and> py_not exc_val"
proof (cases op)
  case (Create acc new_pk rv pb pt)
  with assms show ?thesis
    by (cases acc)
       (auto simp: complete_at_def Publication_create_eq Publication_create_refused
          split: if_splits)
next
  case (Exit exc_val self)
  with assms show ?thesis
    by (cases "py_not exc_val")
       (auto simp: complete_at_def Publication_exit_commit Publication_exit_abort
          Publication_delete_eq split: if_splits)
next
  case (Delete self)
  with assms show ?thesis by (auto simp: complete_at_def Publication_delete_eq split: if_splits)
next
  case (AddArtifact a)
  with assms show ?thesis
    by (auto simp: complete_at_def save_published_artifact_def split: if_splits)
next
  case (AddMetadata m)
  with assms show ?thesis
    by (auto simp: complete_at_def save_published_metadata_def split: if_splits)
qed

text \<open>
  C4. The claim is that complete becomes True only at the successful exit of the scope.
  Leaving the scope with an exception instance that is false takes the branch of the
  successful exit: the row of the example publication is incomplete before
  \<^verbatim>\<open>__exit__\<close> and complete after it, although the scope ended with an exception.
\<close>

theorem complete_set_on_falsy_exception:
  "complete_at populated_db 1 = Some False
 \<and> complete_at (apply_operation (Exit (Some falsy_exception) example_publication) populated_db) 1
     = Some True"
  by (simp add: complete_at_def populated_db_eq example_db_eq Publication_exit_commit py_not_def
        falsy_exception_def example_publication_def)

section \<open>Tasks: deletion\<close>

text \<open>
  C7. Deleting a task that is running or canceling fails with Conflict and changes nothing;
  deleting a task that is waiting, completed, failed or canceled succeeds, and afterwards
  there is no record under its id and no CreatedResource entry it owns, while the records
  and entries of other tasks are as before.
\<close>

theorem task_delete_by_state:
  assumes "tasks s task_id = Some t"
  shows "(state t \<in> {Running, Canceling} \<longrightarrow> task_delete task_id s = (Inl Conflict, s))
       \<and> (state t \<in> {Waiting, Completed, Failed, Canceled} \<longrightarrow>
            (case task_delete task_id s of
               (r, s') \<Rightarrow>
                 r = Inr ()
               \<and> tasks s' = (tasks s)(task_id := None)
               \<and> task_resources s' = filter (\<lambda>(owner, r). owner \<noteq> task_id) (task_resources s)
               \<and> (\<forall>(owner, r)\<in>set (task_resources s'). owner \<noteq> task_id)))"
  using assms by (auto simp: task_delete_def)

theorem task_delete_by_state_witness:
  "task_delete 5 (example_lifecycle Running) = (Inl Conflict, example_lifecycle Running)
 \<and> task_delete 5 (example_lifecycle Canceling) = (Inl Conflict, example_lifecycle Canceling)
 \<and> task_delete 5 (example_lifecycle Waiting) =
     (Inr (), \<lparr>tasks = Map.empty,
               task_resources = [(6, \<lparr>content_type = ''publication'', object_id = 2\<rparr>)]\<rparr>)
 \<and> fst (task_delete 5 (example_lifecycle Canceled)) = Inr ()"
  using task_delete_by_state [of "example_lifecycle Running" 5 "example_task Running"]
    task_delete_by_state [of "example_lifecycle Canceling" 5 "example_task Canceling"]
    task_delete_by_state [of "example_lifecycle Waiting" 5 "example_task Waiting"]
    task_delete_by_state [of "example_lifecycle Canceled" 5 "example_task Canceled"]
  by (auto simp: example_lifecycle_def example_task_def)

section \<open>Tasks: exclusive reservations run in submission order\<close>

subsection \<open>Dispatch keeps the scheduler's invariant\<close>












lemma sched_inv_queue_update [simp]: "sched_inv w (s\<lparr>queue := x\<rparr>) = sched_inv w s"
  by (simp add: sched_inv_def)





subsection \<open>Reservation keeps it\<close>


subsection \<open>The transitions of a task keep it\<close>
















subsection \<open>Every event keeps it\<close>

lemma sched_inv_more_update [simp]: "sched_inv w (scheduler.more_update f s) = sched_inv w s"
  by (simp add: sched_inv_def)









lemma perform_scheduler [simp]:
  "sched_tasks (perform t s) = sched_tasks s" "queue (perform t s) = queue s"
  "holders (perform t s) = holders s" "clock (perform t s) = clock s"
  by (simp_all add: perform_def split: option.splits work.splits)





subsection \<open>What the scheduler's operations do to the world\<close>

lemma dispatch_queue_world [simp]:
  fixes s :: world
  shows "submitted (dispatch_queue q b s) = submitted s"
    "work (dispatch_queue q b s) = work s" "performed (dispatch_queue q b s) = performed s"
    "field (dispatch_queue q b s) = field s" "observed (dispatch_queue q b s) = observed s"
  by (induction q arbitrary: b s; simp add: start_def split: option.splits)+

lemma dispatch_queue_clock [simp]: "clock (dispatch_queue q b s) = clock s"
  by (induction q arbitrary: b s) (simp_all add: start_def split: option.splits)


















subsection \<open>The workers' effects\<close>




lemma perform_submitted [simp]: "submitted (perform p s) = submitted s"
  by (simp add: perform_def split: option.splits work.splits)

lemma executing_perform [simp]: "executing (perform p s) = executing s"
  by (rule ext) (simp add: executing_def)

lemma pending_perform [simp]: "pending (perform p s) = pending s"
  by (rule ext) (simp add: pending_def)





subsection \<open>A reservation and the effects\<close>


subsection \<open>Every run keeps the invariants\<close>




subsection \<open>The run of the functional test, evaluated\<close>


text \<open>
  A task that is canceled while it waits never runs, and the tasks behind it go on: the
  update of the test's run, canceled before dispatch, is never started and writes nothing,
  and the sync submitted after it reads the field as it was.
\<close>

lemma canceled_world_eval:
  "sched_tasks canceled_world 1 =
     Some \<lparr>state = Canceled, requires = [(''remote'', Exclusive)], submitted_at = 0,
           started_at = None, finished_at = None, error_detail = None\<rparr>"
  "sched_tasks canceled_world 2 =
     Some \<lparr>state = Running, requires = [(''remote'', Exclusive), (''repo'', Exclusive)],
           submitted_at = 1, started_at = Some 2, finished_at = None, error_detail = None\<rparr>"
  "performed canceled_world = [2]"
  "observed canceled_world 2 = Some ''url-1''"
  by (simp_all add: canceled_world_def canceled_run_def run_def initial_world_def
        reserve_def conflicting_def dispatch_def start_def perform_def request_cancel_def
        release_def active_def numeral_2_eq_2 numeral_3_eq_3 eval_nat_numeral)

text \<open>
  The log outlives the records: when the record of the second update is deleted before the
  sync is done, the sync still observes what that update wrote, and the log still tells
  that it was submitted between the first update and the sync.
\<close>

lemma deleting_world_eval:
  "sched_tasks deleting_world 2 = None"
  "submitted deleting_world 2 = Some ([(''remote'', Exclusive)], 1)"
  "work deleting_world 2 = Some (Update ''remote'' ''url-3'')"
  "observed deleting_world 3 = Some ''url-3''"
  by (simp_all add: deleting_world_def deleting_run_def run_def initial_world_def
        reserve_def conflicting_def dispatch_def start_def perform_def finish_def release_def
        delete_record_def active_def numeral_2_eq_2 numeral_3_eq_3 eval_nat_numeral)





end
